theory Spec2Isabelle
  imports Complex_Main
begin

section \<open>Values, exceptions and NumPy primitives\<close>

text \<open>
  The completeness estimator of \<^verbatim>\<open>lbg_tools/completeness.py\<close> works on
  \<^verbatim>\<open>float64\<close> arrays. The operations the shape enforcement uses on them are
  comparisons and maxima, which are exact on floats; the embedding therefore takes the
  values as \<^typ>\<open>real\<close> numbers (NaN and the infinities are outside the model).
  An exception is a value: its class name and its message.
\<close>

datatype exn = Exn (exn_class: string) (exn_msg: string)

text \<open>
  \<^verbatim>\<open>np.isclose(a, b)\<close> with the default tolerances \<^verbatim>\<open>rtol=1e-05\<close>,
  \<^verbatim>\<open>atol=1e-08\<close>: \<^verbatim>\<open>abs(a - b) <= atol + rtol * abs(b)\<close>.
\<close>

definition isclose :: "real \<Rightarrow> real \<Rightarrow> bool" where
  "isclose a b \<longleftrightarrow> \<bar>a - b\<bar> \<le> 1 / 10 ^ 8 + 1 / 10 ^ 5 * \<bar>b\<bar>"

text \<open>
  \<^verbatim>\<open>.max()\<close> and \<^verbatim>\<open>.min()\<close> of a non-empty array or series. On an empty
  array NumPy raises \<^verbatim>\<open>ValueError\<close>; every caller below either holds a non-empty
  slice or tests for emptiness first and raises.
\<close>

fun amax :: "real list \<Rightarrow> real" where
  "amax (x # xs) = fold max xs x"

fun amin :: "real list \<Rightarrow> real" where
  "amin (x # xs) = fold min xs x"

definition zero_size_error :: exn where
  "zero_size_error =
     Exn ''ValueError'' ''zero-size array to reduction operation maximum which has no identity''"

section \<open>The unimodality primitive\<close>

text \<open>
  \<^verbatim>\<open>_force_unimodality\<close>, lines 121-126: both copies are overwritten in place
  while \<open>i\<close> runs over \<^verbatim>\<open>range(len(array))\<close>.
\<close>

function force_unimodality_loop ::
  "nat \<Rightarrow> nat \<Rightarrow> real list \<Rightarrow> real list \<Rightarrow> real list \<times> real list" where
  "force_unimodality_loop n i front_monotonic back_monotonic =
     (if i < n
      then force_unimodality_loop n (Suc i)
             (front_monotonic[i := amax (take (Suc i) front_monotonic)])
             (back_monotonic[i := amax (drop i back_monotonic)])
      else (front_monotonic, back_monotonic))"
  by pat_completeness auto
termination
  by (relation "measure (\<lambda>(n, i, f, b). n - i)") auto

declare force_unimodality_loop.simps [simp del]

text \<open>
  Lines 128-132: the mask selects the positions whose running maximum is close to the
  maximum of the running maxima; there the backward running maximum is written.
  \<^verbatim>\<open>new_array.max()\<close> raises on a zero-size array.
\<close>

definition force_unimodality :: "real list \<Rightarrow> exn + real list" where
  "force_unimodality array =
     (let (front_monotonic, back_monotonic) =
            force_unimodality_loop (length array) 0 array array;
          new_array = front_monotonic
      in if new_array = [] then Inl zero_size_error
         else let mask = map (\<lambda>x. isclose x (amax new_array)) new_array
              in Inr (map (\<lambda>(m, f, b). if m then b else f)
                        (zip mask (zip new_array back_monotonic))))"

section \<open>The completeness table\<close>

text \<open>
  The \<^verbatim>\<open>DataFrame\<close>: row labels (redshift), column labels (magnitude offset)
  and the grid of values, one list per row. Its \<^verbatim>\<open>shape\<close> is read off the labels.
\<close>

record dataframe =
  index :: "real list"
  columns :: "real list"
  vals :: "real list list"


subsection \<open>Monotonicity along the magnitude axis\<close>

text \<open>
  Lines 96-102, the scan of one row. Line 99 assigns \<^verbatim>\<open>table.iloc[i, :] = 0\<close>:
  the slice \<^verbatim>\<open>:\<close> is the whole row.
\<close>

function force_mag_monotonicity_row :: "nat \<Rightarrow> nat \<Rightarrow> real list \<Rightarrow> real list" where
  "force_mag_monotonicity_row ncol j row =
     (if j < ncol
      then if isclose (row ! j) 0
           then replicate (length row) 0
           else force_mag_monotonicity_row ncol (Suc j) (row[j := amax (drop j row)])
      else row)"
  by pat_completeness auto
termination
  by (relation "measure (\<lambda>(ncol, j, row). ncol - j)") auto

declare force_mag_monotonicity_row.simps [simp del]

text \<open>Line 94, the loop over the rows.\<close>

function force_mag_monotonicity_rows ::
  "nat \<Rightarrow> nat \<Rightarrow> nat \<Rightarrow> real list list \<Rightarrow> real list list" where
  "force_mag_monotonicity_rows nrow ncol i vs =
     (if i < nrow
      then force_mag_monotonicity_rows nrow ncol (Suc i)
             (vs[i := force_mag_monotonicity_row ncol 0 (vs ! i)])
      else vs)"
  by pat_completeness auto
termination
  by (relation "measure (\<lambda>(nrow, ncol, i, vs). nrow - i)") auto

declare force_mag_monotonicity_rows.simps [simp del]

definition force_mag_monotonicity_df :: "dataframe \<Rightarrow> dataframe" where
  "force_mag_monotonicity_df df =
     df\<lparr>vals := force_mag_monotonicity_rows (length (index df)) (length (columns df)) 0 (vals df)\<rparr>"

subsection \<open>Unimodality along the redshift axis\<close>

text \<open>
  Reading and assigning a column of a two-dimensional grid
  (\<^verbatim>\<open>table.iloc[:, j]\<close>, \<^verbatim>\<open>completeness[:, j]\<close>).
\<close>

definition get_col :: "nat \<Rightarrow> real list list \<Rightarrow> real list" where
  "get_col j vs = map (\<lambda>r. r ! j) vs"

definition set_col :: "nat \<Rightarrow> real list \<Rightarrow> real list list \<Rightarrow> real list list" where
  "set_col j col vs = map (\<lambda>(r, v). r[j := v]) (zip vs col)"

text \<open>
  Lines 148-149 (and, on the query result, lines 190-191): the primitive is applied to
  each column in turn; an exception of the primitive ends the loop.
\<close>

function force_unimodality_cols :: "nat \<Rightarrow> nat \<Rightarrow> real list list \<Rightarrow> exn + real list list" where
  "force_unimodality_cols ncol j vs =
     (if j < ncol
      then case force_unimodality (get_col j vs) of
             Inl e \<Rightarrow> Inl e
           | Inr col \<Rightarrow> force_unimodality_cols ncol (Suc j) (set_col j col vs)
      else Inr vs)"
  by pat_completeness auto
termination
  by (relation "measure (\<lambda>(ncol, j, vs). ncol - j)") auto

declare force_unimodality_cols.simps [simp del]

definition force_z_unimodality_df :: "dataframe \<Rightarrow> exn + dataframe" where
  "force_z_unimodality_df df =
     (case force_unimodality_cols (length (columns df)) 0 (vals df) of
        Inl e \<Rightarrow> Inl e
      | Inr vs \<Rightarrow> Inr (df\<lparr>vals := vs\<rparr>))"

subsection \<open>The table as a mutable object\<close>

text \<open>
  Both enforcement passes write into the \<^verbatim>\<open>DataFrame\<close> they are given and return
  that same object. The store maps a reference to the table it currently holds; a pass
  takes a reference and the store and returns the reference it was given with the
  updated store.
\<close>

type_synonym ref = nat

type_synonym heap = "dataframe list"

definition alloc :: "heap \<Rightarrow> dataframe \<Rightarrow> ref \<times> heap" where
  "alloc h df = (length h, h @ [df])"

definition force_mag_monotonicity :: "ref \<Rightarrow> heap \<Rightarrow> ref \<times> heap" where
  "force_mag_monotonicity table h = (table, h[table := force_mag_monotonicity_df (h ! table)])"

definition force_z_unimodality :: "ref \<Rightarrow> heap \<Rightarrow> exn + ref \<times> heap" where
  "force_z_unimodality table h =
     (case force_z_unimodality_df (h ! table) of
        Inl e \<Rightarrow> Inl e
      | Inr df \<Rightarrow> Inr (table, h[table := df]))"

section \<open>The estimator object\<close>

text \<open>
  A Python instance is its attribute dictionary. The class body of
  \<^verbatim>\<open>Completeness\<close> defines two properties, \<^verbatim>\<open>band\<close> and \<^verbatim>\<open>m5_det\<close>, each
  with a getter and no setter (lines 69-77). Reading an attribute consults the
  properties of the class first and the instance dictionary otherwise; so does
  assignment, and a property without a setter refuses it with
  \<^verbatim>\<open>AttributeError\<close>.
\<close>

datatype pyval =
    Str string
  | Float real
  | DataFrame ref
  | Interpolator "real \<Rightarrow> real \<Rightarrow> real"

type_synonym pyinstance = "string \<rightharpoonup> pyval"

record property =
  fget :: "pyinstance \<Rightarrow> exn + pyval"
  fset :: "(pyinstance \<Rightarrow> pyval \<Rightarrow> exn + pyinstance) option"

definition instance_attr :: "pyinstance \<Rightarrow> string \<Rightarrow> exn + pyval" where
  "instance_attr self name =
     (case self name of
        None \<Rightarrow> Inl (Exn ''AttributeError'' (''no attribute '' @ name))
      | Some v \<Rightarrow> Inr v)"

definition Completeness_properties :: "(string \<times> property) list" where
  "Completeness_properties =
     [(''band'', \<lparr>fget = (\<lambda>self. instance_attr self ''_band''), fset = None\<rparr>),
      (''m5_det'', \<lparr>fget = (\<lambda>self. instance_attr self ''_m5_det''), fset = None\<rparr>)]"

definition getattr :: "pyinstance \<Rightarrow> string \<Rightarrow> exn + pyval" where
  "getattr self name =
     (case map_of Completeness_properties name of
        Some p \<Rightarrow> fget p self
      | None \<Rightarrow> instance_attr self name)"

definition setattr :: "pyinstance \<Rightarrow> string \<Rightarrow> pyval \<Rightarrow> exn + pyinstance" where
  "setattr self name v =
     (case map_of Completeness_properties name of
        Some p \<Rightarrow>
          (case fset p of
             None \<Rightarrow> Inl (Exn ''AttributeError'' (''property '' @ name @ '' has no setter''))
           | Some f \<Rightarrow> f self v)
      | None \<Rightarrow> Inr (self(name \<mapsto> v)))"

section \<open>Construction\<close>

text \<open>
  The file system as the constructor sees it: a path has no file, or a file that
  \<^verbatim>\<open>read_csv\<close> fails on, or a file that parses to a table. The candidate
  directories (\<^verbatim>\<open>data.directories\<close>) are tried in order and the first existing
  file is read (lines 30-44).
\<close>

type_synonym filesystem = "string \<Rightarrow> (exn + dataframe) option"

definition table_path :: "string \<Rightarrow> string \<Rightarrow> string" where
  "table_path directory band = directory @ ''/'' @ ''completeness_'' @ band @ ''.dat''"

fun find_table :: "string list \<Rightarrow> filesystem \<Rightarrow> string \<Rightarrow> (exn + dataframe) option" where
  "find_table [] fs band = None"
| "find_table (directory # directories) fs band =
     (case fs (table_path directory band) of
        None \<Rightarrow> find_table directories fs band
      | Some r \<Rightarrow> Some r)"

text \<open>The message of lines 46-51.\<close>

definition not_found_message :: "string \<Rightarrow> string" where
  "not_found_message band =
     ''completeness_'' @ band @ ''.dat not found in any data directory.'' @ [CHR 0x0A] @
     ''Perhaps you need to run '' @ [CHR 0x60] @ ''from lbg_tools import data'' @ [CHR 0x60] @
     '' and '' @ [CHR 0x60] @ ''data.add_directory('' @ [CHR 0x27] @ ''path/to/files'' @
     [CHR 0x27] @ '')'' @ [CHR 0x60] @ '' before creating the '' @
     ''completeness object.''"

text \<open>
  SciPy's \<^verbatim>\<open>RegularGridInterpolator\<close> is a library outside the repository. The
  constructor is a parameter \<open>rgi\<close>: given the two axes and the grid of values it
  raises or returns the interpolating function of a point \<open>(z, dm)\<close>.
\<close>

type_synonym interpolator_factory =
  "real list \<Rightarrow> real list \<Rightarrow> real list list \<Rightarrow> exn + (real \<Rightarrow> real \<Rightarrow> real)"

definition init ::
  "string list \<Rightarrow> filesystem \<Rightarrow> interpolator_factory \<Rightarrow> string \<Rightarrow> real \<Rightarrow> heap
     \<Rightarrow> exn + pyinstance \<times> heap" where
  "init directories fs rgi band m5_det h =
     (let self = [''_band'' \<mapsto> Str band, ''_m5_det'' \<mapsto> Float m5_det]
      in case find_table directories fs band of
           None \<Rightarrow> Inl (Exn ''ValueError'' (not_found_message band))
         | Some (Inl e) \<Rightarrow> Inl e
         | Some (Inr df) \<Rightarrow>
             (let (table0, h) = alloc h df;
                  self = self(''table0'' \<mapsto> DataFrame table0);
                  (table1, h) = force_mag_monotonicity table0 h
              in case force_z_unimodality table1 h of
                   Inl e \<Rightarrow> Inl e
                 | Inr (table, h) \<Rightarrow>
                     (let self = self(''table'' \<mapsto> DataFrame table)
                      in case rgi (index (h ! table)) (columns (h ! table)) (vals (h ! table)) of
                           Inl e \<Rightarrow> Inl e
                         | Inr f \<Rightarrow> Inr (self(''_interpolator'' \<mapsto> Interpolator f), h))))"

text \<open>The table an estimator holds after a construction, if the construction succeeded.\<close>

definition stored_table :: "exn + pyinstance \<times> heap \<Rightarrow> dataframe option" where
  "stored_table r =
     (case r of
        Inl e \<Rightarrow> None
      | Inr (self, h) \<Rightarrow>
          (case self ''table'' of
             Some (DataFrame table) \<Rightarrow> Some (h ! table)
           | _ \<Rightarrow> None))"

section \<open>The query\<close>

text \<open>
  A query argument is a Python float or a NumPy array of one or two dimensions (a
  two-dimensional array carries its number of columns, so that an array without rows
  still has a shape).
\<close>

datatype ndarray =
    Scalar real
  | Array1 "real list"
  | Array2 nat "real list list"

fun wf_ndarray :: "ndarray \<Rightarrow> bool" where
  "wf_ndarray (Array2 ncol rows) = list_all (\<lambda>r. length r = ncol) rows"
| "wf_ndarray _ = True"

fun nd_shape :: "ndarray \<Rightarrow> nat list" where
  "nd_shape (Scalar x) = []"
| "nd_shape (Array1 xs) = [length xs]"
| "nd_shape (Array2 ncol rows) = [length rows, ncol]"

fun nd_map :: "(real \<Rightarrow> real) \<Rightarrow> ndarray \<Rightarrow> ndarray" where
  "nd_map f (Scalar x) = Scalar (f x)"
| "nd_map f (Array1 xs) = Array1 (map f xs)"
| "nd_map f (Array2 ncol rows) = Array2 ncol (map (map f) rows)"

fun nd_elems :: "ndarray \<Rightarrow> real set" where
  "nd_elems (Scalar x) = {x}"
| "nd_elems (Array1 xs) = set xs"
| "nd_elems (Array2 ncol rows) = \<Union> (set (map set rows))"

text \<open>
  \<^verbatim>\<open>np.atleast_2d\<close>: the number of columns and the rows. NumPy broadcasts by
  padding the shorter shape with leading ones, which is what \<^verbatim>\<open>atleast_2d\<close> does to
  a shape of fewer than two dimensions; for the arguments of the model, broadcasting the
  two-dimensional views is broadcasting the arguments and then viewing the result in two
  dimensions (line 179, then line 187).
\<close>

fun atleast_2d :: "ndarray \<Rightarrow> nat \<times> real list list" where
  "atleast_2d (Scalar x) = (1, [[x]])"
| "atleast_2d (Array1 xs) = (length xs, [xs])"
| "atleast_2d (Array2 ncol rows) = (ncol, rows)"

definition broadcast_dim :: "nat \<Rightarrow> nat \<Rightarrow> nat option" where
  "broadcast_dim a b =
     (if a = b then Some a else if a = 1 then Some b else if b = 1 then Some a else None)"

definition stretch :: "nat \<Rightarrow> 'a list \<Rightarrow> 'a list" where
  "stretch n xs = (if length xs = n then xs else replicate n (xs ! 0))"

definition broadcast_error :: exn where
  "broadcast_error =
     Exn ''ValueError'' ''shape mismatch: objects cannot be broadcast to a single shape''"

definition broadcast_arrays ::
  "ndarray \<Rightarrow> ndarray \<Rightarrow> exn + nat \<times> (real \<times> real) list list" where
  "broadcast_arrays a b =
     (let (ncol_a, rows_a) = atleast_2d a; (ncol_b, rows_b) = atleast_2d b
      in case (broadcast_dim (length rows_a) (length rows_b), broadcast_dim ncol_a ncol_b) of
           (Some nrow, Some ncol) \<Rightarrow>
             Inr (ncol, map (\<lambda>(ra, rb). zip (stretch ncol ra) (stretch ncol rb))
                          (zip (stretch nrow rows_a) (stretch nrow rows_b)))
         | _ \<Rightarrow> Inl broadcast_error)"

text \<open>Lines 188-189: the primitive on each row of the result.\<close>

function force_unimodality_rows :: "nat \<Rightarrow> nat \<Rightarrow> real list list \<Rightarrow> exn + real list list" where
  "force_unimodality_rows nrow i completeness =
     (if i < nrow
      then case force_unimodality (completeness ! i) of
             Inl e \<Rightarrow> Inl e
           | Inr row \<Rightarrow> force_unimodality_rows nrow (Suc i) (completeness[i := row])
      else Inr completeness)"
  by pat_completeness auto
termination
  by (relation "measure (\<lambda>(nrow, i, c). nrow - i)") auto

declare force_unimodality_rows.simps [simp del]

text \<open>\<^verbatim>\<open>.squeeze()\<close> drops every axis of length one.\<close>

definition squeeze :: "nat \<Rightarrow> real list list \<Rightarrow> ndarray" where
  "squeeze ncol rows =
     (if length rows = 1 \<and> ncol = 1 then Scalar (rows ! 0 ! 0)
      else if length rows = 1 then Array1 (rows ! 0)
      else if ncol = 1 then Array1 (get_col 0 rows)
      else Array2 ncol rows)"

text \<open>
  Lines 173-193 for a given depth, column labels and interpolating function.
  \<^verbatim>\<open>np.clip(x, lo, None)\<close> is the maximum with \<open>lo\<close>. The minimum of the column
  labels exists when the table has a column; of an empty index pandas returns NaN, so
  the statements about queries below are about tables with at least one column.
\<close>

definition estimate ::
  "real \<Rightarrow> real list \<Rightarrow> (real \<Rightarrow> real \<Rightarrow> real) \<Rightarrow> ndarray \<Rightarrow> ndarray \<Rightarrow> exn + ndarray" where
  "estimate m5_det cols interpolator m z =
     (let dm = nd_map (\<lambda>x. x - m5_det) m;
          dm = nd_map (\<lambda>x. max x (amin cols)) dm
      in case broadcast_arrays z dm of
           Inl e \<Rightarrow> Inl e
         | Inr (ncol, points) \<Rightarrow>
             (let completeness = map (map (\<lambda>(z, dm). interpolator z dm)) points;
                  completeness = map (map (\<lambda>c. max c 0)) completeness
              in case force_unimodality_rows (length completeness) 0 completeness of
                   Inl e \<Rightarrow> Inl e
                 | Inr completeness \<Rightarrow>
                     (case force_unimodality_cols ncol 0 completeness of
                        Inl e \<Rightarrow> Inl e
                      | Inr completeness \<Rightarrow> Inr (squeeze ncol completeness))))"

text \<open>
  \<^verbatim>\<open>__call__\<close>: the depth is read through the property, the table and the
  interpolator from the instance.
\<close>

definition call :: "pyinstance \<Rightarrow> heap \<Rightarrow> ndarray \<Rightarrow> ndarray \<Rightarrow> exn + ndarray" where
  "call self h m z =
     (case getattr self ''m5_det'' of
        Inl e \<Rightarrow> Inl e
      | Inr (Float m5_det) \<Rightarrow>
          (case getattr self ''table'' of
             Inl e \<Rightarrow> Inl e
           | Inr (DataFrame table) \<Rightarrow>
               (case getattr self ''_interpolator'' of
                  Inl e \<Rightarrow> Inl e
                | Inr (Interpolator f) \<Rightarrow> estimate m5_det (columns (h ! table)) f m z
                | Inr _ \<Rightarrow> Inl (Exn ''TypeError'' ''_interpolator''))
           | Inr _ \<Rightarrow> Inl (Exn ''TypeError'' ''table''))
      | Inr _ \<Rightarrow> Inl (Exn ''TypeError'' ''m5_det''))"

section \<open>An interpolator for concrete runs\<close>

text \<open>
  The scheme of \<^verbatim>\<open>RegularGridInterpolator(..., method="linear", bounds_error=False,
  fill_value=None)\<close> on a grid with strictly ascending axes of at least two nodes: the
  cell of a coordinate is found by bisection and clamped to the first or last cell, so
  that a point outside the grid is extrapolated linearly from the edge cell. It is the
  instance of \<open>rgi\<close> used wherever a statement below runs the estimator on a concrete
  table; other grids are rejected by it.
\<close>

definition find_indices :: "real list \<Rightarrow> real \<Rightarrow> nat \<times> real" where
  "find_indices grid x =
     (let i = min (length grid - 2) (length (filter (\<lambda>g. g < x) grid) - 1)
      in (i, (x - grid ! i) / (grid ! Suc i - grid ! i)))"

definition evaluate_linear ::
  "real list \<Rightarrow> real list \<Rightarrow> real list list \<Rightarrow> real \<Rightarrow> real \<Rightarrow> real" where
  "evaluate_linear grid_z grid_dm v z dm =
     (let (i, yz) = find_indices grid_z z; (j, ym) = find_indices grid_dm dm
      in (1 - yz) * (1 - ym) * (v ! i ! j) + (1 - yz) * ym * (v ! i ! Suc j) +
         yz * (1 - ym) * (v ! Suc i ! j) + yz * ym * (v ! Suc i ! Suc j))"

definition linear_interpolator :: interpolator_factory where
  "linear_interpolator grid_z grid_dm v =
     (if 2 \<le> length grid_z \<and> 2 \<le> length grid_dm \<and>
         sorted_wrt (<) grid_z \<and> sorted_wrt (<) grid_dm \<and>
         length v = length grid_z \<and> list_all (\<lambda>r. length r = length grid_dm) v
      then Inr (evaluate_linear grid_z grid_dm v)
      else Inl (Exn ''ValueError'' ''grid''))"

section \<open>The properties in the words of the specification\<close>

text \<open>The forward and the backward running maximum at a position.\<close>

definition prefix_max :: "real list \<Rightarrow> nat \<Rightarrow> real" where
  "prefix_max xs i = Max (set (take (Suc i) xs))"

definition suffix_max :: "real list \<Rightarrow> nat \<Rightarrow> real" where
  "suffix_max xs i = Max (set (drop i xs))"


definition envelope :: "real list \<Rightarrow> nat \<Rightarrow> real" where
  "envelope a i =
     (if isclose (prefix_max a i) (Max (set a)) then suffix_max a i else prefix_max a i)"




text \<open>
  The state of the column loop before column \<open>j\<close>, for a grid \<open>V\<close> it started from: the
  columns before \<open>j\<close> hold the envelope of the column of \<open>V\<close>, the others are untouched.
\<close>

definition cols_inv :: "nat \<Rightarrow> nat \<Rightarrow> real list list \<Rightarrow> real list list \<Rightarrow> bool" where
  "cols_inv ncol j V W \<longleftrightarrow>
     length W = length V \<and>
     (\<forall>i<length V. length (W ! i) = ncol \<and>
        (\<forall>k<ncol. W ! i ! k = (if k < j then envelope (get_col k V) i else V ! i ! k)))"

text \<open>
  The shape of the two-dimensional view of an argument, and when two arguments can be
  broadcast against each other.
\<close>

definition shape2 :: "ndarray \<Rightarrow> nat \<times> nat" where
  "shape2 a = (length (snd (atleast_2d a)), fst (atleast_2d a))"

definition broadcastable :: "ndarray \<Rightarrow> ndarray \<Rightarrow> bool" where
  "broadcastable a b \<longleftrightarrow>
     broadcast_dim (fst (shape2 a)) (fst (shape2 b)) \<noteq> None \<and>
     broadcast_dim (snd (shape2 a)) (snd (shape2 b)) \<noteq> None"

section \<open>A concrete run\<close>

text \<open>
  A table of two redshift rows and two magnitude columns, a file system that holds it as
  the table of band \<open>u\<close> in the directory \<open>data\<close>, the table after the two enforcement
  passes, and the estimator that the construction returns for it with depth 26.
\<close>

definition example_raw :: dataframe where
  "example_raw =
     \<lparr>index = [2, 3], columns = [- 1, 0],
      vals = [[1 / 2, 1 / 2], [3 / 4, 1048577 / 2097152]]\<rparr>"

definition example_fs :: filesystem where
  "example_fs path = (if path = ''data/completeness_u.dat'' then Some (Inr example_raw) else None)"

definition example_table :: dataframe where
  "example_table =
     \<lparr>index = [2, 3], columns = [- 1, 0],
      vals = [[1 / 2, 1048577 / 2097152], [3 / 4, 1048577 / 2097152]]\<rparr>"

definition example_self :: pyinstance where
  "example_self =
     [''_band'' \<mapsto> Str ''u'', ''_m5_det'' \<mapsto> Float 26,
      ''table0'' \<mapsto> DataFrame 0, ''table'' \<mapsto> DataFrame 0,
      ''_interpolator'' \<mapsto>
        Interpolator (evaluate_linear [2, 3] [- 1, 0]
          [[1 / 2, 1048577 / 2097152], [3 / 4, 1048577 / 2097152]])]"

section \<open>Lemmas: running maxima and the envelope\<close>

lemma amax_Max: "xs \<noteq> [] \<Longrightarrow> amax xs = Max (set xs)"
  by (cases xs) (simp, metis Max.set_eq_fold amax.simps)

lemma amin_Min: "xs \<noteq> [] \<Longrightarrow> amin xs = Min (set xs)"
  by (cases xs) (simp, metis Min.set_eq_fold amin.simps)

lemma prefix_max_mono:
  "k \<le> i \<Longrightarrow> k < length a \<Longrightarrow> prefix_max a k \<le> prefix_max a i"
  unfolding prefix_max_def
  by (rule Max_mono) (auto simp: set_take_subset_set_take)


lemma prefix_max_ge: "i < length a \<Longrightarrow> a ! i \<le> prefix_max a i"
  unfolding prefix_max_def
  by (rule Max_ge) (auto simp: in_set_conv_nth intro!: exI[of _ i])


lemma prefix_max_le_Max: "i < length a \<Longrightarrow> prefix_max a i \<le> Max (set a)"
  unfolding prefix_max_def
  by (rule Max_mono) (auto dest: in_set_takeD)


lemma prefix_max_in: "i < length a \<Longrightarrow> \<exists>k\<le>i. prefix_max a i = a ! k"
proof -
  assume i: "i < length a"
  have "Max (set (take (Suc i) a)) \<in> set (take (Suc i) a)"
    using i by (intro Max_in) auto
  then obtain k where "k < length (take (Suc i) a)" "take (Suc i) a ! k = Max (set (take (Suc i) a))"
    by (auto simp: in_set_conv_nth)
  then show ?thesis using i unfolding prefix_max_def
    by (intro exI[of _ k]) auto
qed

lemma suffix_max_in: "i < length a \<Longrightarrow> \<exists>k\<ge>i. k < length a \<and> suffix_max a i = a ! k"
proof -
  assume i: "i < length a"
  have "Max (set (drop i a)) \<in> set (drop i a)"
    using i by (intro Max_in) auto
  then obtain k where "k < length (drop i a)" "drop i a ! k = Max (set (drop i a))"
    by (auto simp: in_set_conv_nth)
  then show ?thesis using i unfolding suffix_max_def
    by (intro exI[of _ "i + k"]) auto
qed

lemma prefix_max_step:
  assumes "i < length fr" "length a = length fr"
    and "\<forall>k<i. fr ! k = prefix_max a k" and "fr ! i = a ! i"
  shows "amax (take (Suc i) fr) = prefix_max a i"
proof -
  have ne: "take (Suc i) fr \<noteq> []" using assms(1) by auto
  have "Max (set (take (Suc i) fr)) = prefix_max a i"
  proof (rule Max_eqI)
    show "finite (set (take (Suc i) fr))" by simp
    show "prefix_max a i \<in> set (take (Suc i) fr)"
    proof -
      obtain k where k: "k \<le> i" "prefix_max a i = a ! k"
        using prefix_max_in[of i a] assms by auto
      show ?thesis
      proof (cases "k = i")
        case True
        then have "take (Suc i) fr ! i = prefix_max a i" using k assms by simp
        then show ?thesis using assms(1)
          by (metis length_take lessI min_less_iff_conj nth_mem)
      next
        case False
        then have ki: "k < i" using k by simp
        have "prefix_max a k \<le> prefix_max a i" using prefix_max_mono[of k i a] ki assms by simp
        moreover have "a ! k \<le> prefix_max a k" using prefix_max_ge[of k a] ki assms by simp
        ultimately have "prefix_max a k = prefix_max a i" using k by simp
        then have "take (Suc i) fr ! k = prefix_max a i" using ki assms by simp
        moreover have "k < length (take (Suc i) fr)" using ki assms by simp
        ultimately show ?thesis by (metis nth_mem)
      qed
    qed
    fix y assume "y \<in> set (take (Suc i) fr)"
    then obtain k where k: "k < Suc i" "k < length fr" "y = fr ! k"
      by (auto simp: in_set_conv_nth)
    show "y \<le> prefix_max a i"
    proof (cases "k = i")
      case True
      then show ?thesis using k assms prefix_max_ge[of i a] by simp
    next
      case False
      then have "k < i" using k by simp
      then show ?thesis using k assms prefix_max_mono[of k i a] by simp
    qed
  qed
  then show ?thesis using ne by (simp add: amax_Max)
qed

lemma suffix_max_step:
  assumes "i < length bk" "length a = length bk"
    and "\<forall>k. i \<le> k \<and> k < length bk \<longrightarrow> bk ! k = a ! k"
  shows "amax (drop i bk) = suffix_max a i"
proof -
  have "drop i bk = drop i a"
    using assms by (intro nth_equalityI) auto
  moreover have "drop i a \<noteq> []" using assms by simp
  ultimately show ?thesis by (simp add: amax_Max suffix_max_def)
qed

lemma force_unimodality_loop_inv:
  assumes "length a = n" "length fr = n" "length bk = n" "i \<le> n"
    and "\<forall>k<i. fr ! k = prefix_max a k"
    and "\<forall>k. i \<le> k \<and> k < n \<longrightarrow> fr ! k = a ! k"
    and "\<forall>k<i. bk ! k = suffix_max a k"
    and "\<forall>k. i \<le> k \<and> k < n \<longrightarrow> bk ! k = a ! k"
  shows "force_unimodality_loop n i fr bk =
           (map (prefix_max a) [0..<n], map (suffix_max a) [0..<n])"
  using assms
proof (induction "n - i" arbitrary: i fr bk)
  case 0
  then have "i = n" by simp
  with 0 have "fr = map (prefix_max a) [0..<n]" "bk = map (suffix_max a) [0..<n]"
    by (auto intro!: nth_equalityI)
  then show ?case using \<open>i = n\<close> by (subst force_unimodality_loop.simps) simp
next
  case (Suc m)
  then have lt: "i < n" by simp
  have f: "amax (take (Suc i) fr) = prefix_max a i"
    using prefix_max_step[of i fr a] Suc.prems lt by simp
  have b: "amax (drop i bk) = suffix_max a i"
    using suffix_max_step[of i bk a] Suc.prems lt by simp
  have "force_unimodality_loop n (Suc i) (fr[i := prefix_max a i]) (bk[i := suffix_max a i]) =
          (map (prefix_max a) [0..<n], map (suffix_max a) [0..<n])"
  proof (rule Suc.hyps(1))
    show "m = n - Suc i" using Suc.hyps(2) by simp
    show "\<forall>k<Suc i. fr[i := prefix_max a i] ! k = prefix_max a k"
      using Suc.prems lt by (auto simp: nth_list_update less_Suc_eq)
    show "\<forall>k<Suc i. bk[i := suffix_max a i] ! k = suffix_max a k"
      using Suc.prems lt by (auto simp: nth_list_update less_Suc_eq)
  qed (use Suc.prems lt in \<open>auto simp: nth_list_update\<close>)
  then show ?case using lt f b by (subst force_unimodality_loop.simps) simp
qed

lemma force_unimodality_loop_eq:
  "force_unimodality_loop (length a) 0 a a =
     (map (prefix_max a) [0..<length a], map (suffix_max a) [0..<length a])"
  by (rule force_unimodality_loop_inv) auto





lemma prefix_max_last: "a \<noteq> [] \<Longrightarrow> prefix_max a (length a - 1) = Max (set a)"
  by (simp add: prefix_max_def)

lemma Max_prefix_max:
  assumes "a \<noteq> []"
  shows "Max (set (map (prefix_max a) [0..<length a])) = Max (set a)"
proof (rule Max_eqI)
  show "finite (set (map (prefix_max a) [0..<length a]))" by simp
  show "Max (set a) \<in> set (map (prefix_max a) [0..<length a])"
    using assms prefix_max_last[OF assms]
    by (auto simp: image_iff intro!: bexI[of _ "length a - 1"])
  fix y assume "y \<in> set (map (prefix_max a) [0..<length a])"
  then show "y \<le> Max (set a)" using prefix_max_le_Max by auto
qed

lemma force_unimodality_envelope:
  assumes "a \<noteq> []"
  shows "force_unimodality a = Inr (map (envelope a) [0..<length a])"
proof -
  let ?n = "length a"
  have ne: "map (prefix_max a) [0..<?n] \<noteq> []" using assms by simp
  have mx: "amax (map (prefix_max a) [0..<?n]) = Max (set a)"
    using amax_Max[OF ne] Max_prefix_max[OF assms] by simp
  have "map (\<lambda>(m, f, b). if m then b else f)
          (zip (map (\<lambda>x. isclose x (Max (set a))) (map (prefix_max a) [0..<?n]))
               (zip (map (prefix_max a) [0..<?n]) (map (suffix_max a) [0..<?n]))) =
        map (envelope a) [0..<?n]"
    by (rule nth_equalityI) (simp_all add: envelope_def)
  then show ?thesis
    using ne mx by (simp add: force_unimodality_def force_unimodality_loop_eq Let_def)
qed

lemma force_unimodality_empty: "force_unimodality [] = Inl zero_size_error"
  by (simp add: force_unimodality_def force_unimodality_loop.simps)


















section \<open>Lemmas: the column loop\<close>




lemma length_get_col: "length (get_col j vs) = length vs"
  by (simp add: get_col_def)


lemma length_set_col: "length col = length vs \<Longrightarrow> length (set_col j col vs) = length vs"
  by (simp add: set_col_def)

lemma nth_set_col:
  "length col = length vs \<Longrightarrow> i < length vs \<Longrightarrow> set_col j col vs ! i = (vs ! i)[j := col ! i]"
  by (simp add: set_col_def)

lemma force_unimodality_cols_inv:
  assumes "V \<noteq> []" "cols_inv ncol j V W" "j \<le> ncol"
  shows "\<exists>W'. force_unimodality_cols ncol j W = Inr W' \<and> cols_inv ncol ncol V W'"
  using assms(2,3)
proof (induction "ncol - j" arbitrary: j W)
  case 0
  then show ?case by (subst force_unimodality_cols.simps) auto
next
  case (Suc m)
  then have lt: "j < ncol" by simp
  have len: "length W = length V" using Suc.prems by (simp add: cols_inv_def)
  have col: "get_col j W = get_col j V"
    using Suc.prems lt by (intro nth_equalityI) (auto simp: cols_inv_def get_col_def)
  have ne: "get_col j V \<noteq> []" using assms(1) by (simp add: get_col_def)
  let ?c = "map (envelope (get_col j V)) [0..<length V]"
  have fu: "force_unimodality (get_col j W) = Inr ?c"
    using force_unimodality_envelope[OF ne] col by (simp add: length_get_col)
  have "cols_inv ncol (Suc j) V (set_col j ?c W)"
    unfolding cols_inv_def
  proof (intro conjI allI impI)
    show "length (set_col j ?c W) = length V" using len by (simp add: length_set_col)
  next
    fix i assume i: "i < length V"
    then have n: "set_col j ?c W ! i = (W ! i)[j := envelope (get_col j V) i]"
      using len by (simp add: nth_set_col)
    show "length (set_col j ?c W ! i) = ncol"
      using n i Suc.prems by (simp add: cols_inv_def)
    fix k assume k: "k < ncol"
    show "set_col j ?c W ! i ! k = (if k < Suc j then envelope (get_col k V) i else V ! i ! k)"
      using n i k lt Suc.prems by (auto simp: cols_inv_def nth_list_update less_Suc_eq)
  qed
  then have "\<exists>W'. force_unimodality_cols ncol (Suc j) (set_col j ?c W) = Inr W' \<and>
               cols_inv ncol ncol V W'"
    using Suc.hyps lt by (intro Suc.hyps(1)) auto
  then show ?case using lt fu by (subst force_unimodality_cols.simps) simp
qed

lemma cols_inv_start:
  "list_all (\<lambda>r. length r = ncol) V \<Longrightarrow> cols_inv ncol 0 V V"
  by (simp add: cols_inv_def list_all_length)




section \<open>Lemmas: construction\<close>

lemma find_table_None:
  "(\<forall>d\<in>set directories. fs (table_path d band) = None) \<Longrightarrow> find_table directories fs band = None"
  by (induction directories) auto


lemma init_Inr:
  assumes "init directories fs rgi band m5_det h = Inr (self, h')"
  shows "\<exists>df T f. find_table directories fs band = Some (Inr df) \<and>
           force_z_unimodality_df (force_mag_monotonicity_df df) = Inr T \<and>
           rgi (index T) (columns T) (vals T) = Inr f \<and> h' = h @ [T] \<and>
           self = [''_band'' \<mapsto> Str band, ''_m5_det'' \<mapsto> Float m5_det,
                   ''table0'' \<mapsto> DataFrame (length h), ''table'' \<mapsto> DataFrame (length h),
                   ''_interpolator'' \<mapsto> Interpolator f]"
  using assms
  by (auto simp: init_def alloc_def force_mag_monotonicity_def force_z_unimodality_def Let_def
      split: option.splits sum.splits prod.splits)


lemma example_init:
  "init [''data''] example_fs linear_interpolator ''u'' 26 [] = Inr (example_self, [example_table])"
proof -
  have m: "force_mag_monotonicity_df example_raw = example_raw"
    by (simp add: example_raw_def force_mag_monotonicity_df_def
        force_mag_monotonicity_rows.simps force_mag_monotonicity_row.simps isclose_def)
  have u1: "force_unimodality [1 / 2, 3 / 4] = Inr [1 / 2, 3 / 4]" by code_simp
  have u2: "force_unimodality [1 / 2, 1048577 / 2097152] =
              Inr [1048577 / 2097152, 1048577 / 2097152]" by code_simp
  have z: "force_z_unimodality_df example_raw = Inr example_table"
    by (simp add: example_raw_def example_table_def force_z_unimodality_df_def
        force_unimodality_cols.simps get_col_def set_col_def u1 u2)
  show ?thesis
    by (simp add: init_def example_fs_def table_path_def alloc_def force_mag_monotonicity_def
        force_z_unimodality_def m z example_self_def linear_interpolator_def)
      (simp add: example_table_def)
qed

section \<open>Lemmas: the table after the enforcement passes\<close>



lemma example_stored: 
  "stored_table (init [''data''] example_fs linear_interpolator ''u'' 26 []) = Some example_table"
  by (simp add: example_init stored_table_def example_self_def)


section \<open>Lemmas: the query\<close>

lemma envelope_in_set: "i < length a \<Longrightarrow> envelope a i \<in> set a"
  using prefix_max_in[of i a] suffix_max_in[of i a]
  by (auto simp: envelope_def)

lemma force_unimodality_Inr:
  assumes "force_unimodality a = Inr out"
  shows "a \<noteq> []" and "length out = length a" and "set out \<subseteq> set a"
proof -
  show ne: "a \<noteq> []" using assms force_unimodality_empty by auto
  then have out: "out = map (envelope a) [0..<length a]"
    using assms force_unimodality_envelope by simp
  then show "length out = length a" by simp
  show "set out \<subseteq> set a" using out envelope_in_set by auto
qed

lemma force_unimodality_rows_Inr:
  assumes "force_unimodality_rows n i C = Inr C'" "length C = n" "i \<le> n"
  shows "length C' = n \<and> (\<forall>k<n. if k < i then C' ! k = C ! k
                                   else force_unimodality (C ! k) = Inr (C' ! k))"
  using assms
proof (induction "n - i" arbitrary: i C)
  case 0
  then show ?case by (subst (asm) force_unimodality_rows.simps) auto
next
  case (Suc m)
  then have lt: "i < n" by simp
  obtain row where row: "force_unimodality (C ! i) = Inr row"
      and rec: "force_unimodality_rows n (Suc i) (C[i := row]) = Inr C'"
    using Suc.prems(1) lt
    by (subst (asm) force_unimodality_rows.simps) (auto split: sum.splits)
  have "length C' = n \<and> (\<forall>k<n. if k < Suc i then C' ! k = C[i := row] ! k
                                   else force_unimodality (C[i := row] ! k) = Inr (C' ! k))"
    using Suc.hyps(2) Suc.prems lt by (intro Suc.hyps(1)[OF _ rec]) auto
  then show ?case using row lt Suc.prems(2)
    by (auto simp: nth_list_update less_Suc_eq split: if_splits)
qed

lemma force_unimodality_rows_succeeds:
  assumes "length C = n" "i \<le> n" "\<forall>k<n. C ! k \<noteq> []"
  shows "\<exists>C'. force_unimodality_rows n i C = Inr C'"
  using assms
proof (induction "n - i" arbitrary: i C)
  case 0
  then show ?case by (subst force_unimodality_rows.simps) auto
next
  case (Suc m)
  then have lt: "i < n" by simp
  then have ne: "C ! i \<noteq> []" using Suc.prems by simp
  let ?row = "map (envelope (C ! i)) [0..<length (C ! i)]"
  have row: "force_unimodality (C ! i) = Inr ?row" by (rule force_unimodality_envelope[OF ne])
  have "?row \<noteq> []" using ne by simp
  have "C[i := ?row] ! k \<noteq> []" if "k < n" for k
    using that Suc.prems ne by (cases "k = i") simp_all
  then have "\<forall>k<n. C[i := ?row] ! k \<noteq> []" by blast
  then have "\<exists>C'. force_unimodality_rows n (Suc i) (C[i := ?row]) = Inr C'"
    using Suc.hyps(2) Suc.prems lt by (intro Suc.hyps(1)) auto
  then show ?case using row lt by (subst force_unimodality_rows.simps) simp
qed

lemma length_stretch: "length (stretch n xs) = n"
  by (simp add: stretch_def)

lemma broadcast_arrays_Inr:
  assumes "broadcast_arrays a b = Inr (ncol, points)"
  shows "list_all (\<lambda>r. length r = ncol) points"
    and "broadcast_dim (fst (shape2 a)) (fst (shape2 b)) = Some (length points)"
    and "broadcast_dim (snd (shape2 a)) (snd (shape2 b)) = Some ncol"
  using assms
  by (auto simp: broadcast_arrays_def shape2_def list_all_iff length_stretch
      split: prod.splits option.splits dest!: set_zip_leftD)

lemma broadcast_arrays_cases:
  "(\<exists>ncol points. broadcast_arrays a b = Inr (ncol, points) \<and> broadcastable a b) \<or>
   (broadcast_arrays a b = Inl broadcast_error \<and> \<not> broadcastable a b)"
  by (auto simp: broadcast_arrays_def shape2_def broadcastable_def
      split: prod.splits option.splits)

lemma shape2_nd_map: "shape2 (nd_map f a) = shape2 a"
  by (cases a) (simp_all add: shape2_def)

lemma broadcastable_nd_map: "broadcastable a (nd_map f b) = broadcastable a b"
  by (simp add: broadcastable_def shape2_nd_map)



lemma stored_table_constructed:
  assumes "init directories fs rgi band m5_det h = Inr (self, h')"
  shows "\<exists>T. stored_table (init directories fs rgi band m5_det h) = Some T"
  using init_Inr[OF assms] assms by (auto simp: stored_table_def)

lemma call_constructed:
  assumes "init directories fs rgi band m5_det h = Inr (self, h')"
    and "stored_table (init directories fs rgi band m5_det h) = Some T"
  shows "\<exists>f. \<forall>m z. call self h' m z = estimate m5_det (columns T) f m z"
proof -
  from init_Inr[OF assms(1)] obtain df T' f where
    "h' = h @ [T']"
    "self = [''_band'' \<mapsto> Str band, ''_m5_det'' \<mapsto> Float m5_det,
             ''table0'' \<mapsto> DataFrame (length h), ''table'' \<mapsto> DataFrame (length h),
             ''_interpolator'' \<mapsto> Interpolator f]"
    by blast
  then show ?thesis using assms
    by (intro exI[of _ f])
      (auto simp: stored_table_def call_def getattr_def Completeness_properties_def
        instance_attr_def)
qed

lemma nd_map_const_shape:
  assumes "wf_ndarray m1" "wf_ndarray m2" "nd_shape m1 = nd_shape m2"
  shows "nd_map (\<lambda>x. c) m1 = nd_map (\<lambda>x. c) m2"
proof (cases m1)
  case (Scalar x)
  then show ?thesis using assms by (cases m2) auto
next
  case (Array1 xs)
  then show ?thesis using assms by (cases m2) (auto simp: map_replicate_const)
next
  case a: (Array2 n rows)
  then obtain rows' where b: "m2 = Array2 n rows'" and l: "length rows' = length rows"
    using assms by (cases m2) auto
  have "map (map (\<lambda>x. c)) rows = replicate (length rows) (replicate n c)"
    using assms(1) a by (auto simp: list_all_iff map_replicate_const intro!: replicate_eqI)
  moreover have "map (map (\<lambda>x. c)) rows' = replicate (length rows') (replicate n c)"
    using assms(2) b by (auto simp: list_all_iff map_replicate_const intro!: replicate_eqI)
  ultimately show ?thesis using a b l by simp
qed

lemma nd_map_cong: "(\<And>x. x \<in> nd_elems m \<Longrightarrow> f x = g x) \<Longrightarrow> nd_map f m = nd_map g m"
  by (cases m) auto

lemma nd_map_comp: "nd_map f (nd_map g m) = nd_map (\<lambda>x. f (g x)) m"
  by (cases m) auto

lemma clip_bright:
  assumes "cols \<noteq> []" "\<forall>x\<in>nd_elems m. x - m5_det \<le> Min (set cols)"
  shows "nd_map (\<lambda>x. max x (amin cols)) (nd_map (\<lambda>x. x - m5_det) m) =
           nd_map (\<lambda>x. Min (set cols)) m"
  unfolding nd_map_comp
  using assms by (intro nd_map_cong) (simp add: amin_Min max_def)

lemma broadcast_dim_pos: "broadcast_dim a b = Some n \<Longrightarrow> 0 < a \<Longrightarrow> 0 < b \<Longrightarrow> 0 < n"
  by (auto simp: broadcast_dim_def split: if_splits)

lemma estimate_not_broadcastable:
  assumes "\<not> broadcastable z m"
  shows "estimate m5_det cols f m z = Inl broadcast_error"
proof -
  let ?dm = "nd_map (\<lambda>x. max x (amin cols)) (nd_map (\<lambda>x. x - m5_det) m)"
  have "\<not> broadcastable z ?dm" using assms by (simp add: broadcastable_nd_map)
  then have "broadcast_arrays z ?dm = Inl broadcast_error"
    using broadcast_arrays_cases[of z ?dm] by auto
  then show ?thesis by (simp add: estimate_def)
qed

lemma estimate_broadcastable:
  assumes "broadcastable z m"
    and "0 < fst (shape2 m)" "0 < snd (shape2 m)" "0 < fst (shape2 z)" "0 < snd (shape2 z)"
  shows "\<exists>r. estimate m5_det cols f m z = Inr r"
proof -
  let ?dm = "nd_map (\<lambda>x. max x (amin cols)) (nd_map (\<lambda>x. x - m5_det) m)"
  have sh: "shape2 ?dm = shape2 m" by (simp add: shape2_nd_map)
  have "broadcastable z ?dm" using assms(1) by (simp add: broadcastable_nd_map)
  then obtain ncol points where b: "broadcast_arrays z ?dm = Inr (ncol, points)"
    using broadcast_arrays_cases[of z ?dm] by auto
  note B = broadcast_arrays_Inr[OF b]
  have nr: "0 < length points" using broadcast_dim_pos[OF B(2)] assms sh by simp
  have nc: "0 < ncol" using broadcast_dim_pos[OF B(3)] assms sh by simp
  let ?C = "map (map (\<lambda>c. max c 0)) (map (map (\<lambda>(z, dm). f z dm)) points)"
  have rect0: "list_all (\<lambda>r. length r = ncol) ?C" using B(1) by (simp add: list_all_iff)
  then have "\<forall>k<length ?C. ?C ! k \<noteq> []" using nc by (auto simp: list_all_length)
  then obtain C1 where C1: "force_unimodality_rows (length ?C) 0 ?C = Inr C1"
    using force_unimodality_rows_succeeds[of ?C "length ?C" 0] by blast
  note R1 = force_unimodality_rows_Inr[OF C1 refl le0]
  have "length (C1 ! k) = ncol" if k: "k < length C1" for k
  proof -
    have fu: "force_unimodality (?C ! k) = Inr (C1 ! k)" using R1 k by simp
    have "length (?C ! k) = ncol" using rect0 k R1 by (simp add: list_all_length)
    then show ?thesis using force_unimodality_Inr(2)[OF fu] by simp
  qed
  then have rect1: "list_all (\<lambda>r. length r = ncol) C1" by (simp add: list_all_length)
  have "C1 \<noteq> []" using R1 nr by auto
  then obtain C2 where "force_unimodality_cols ncol 0 C1 = Inr C2"
    using force_unimodality_cols_inv[OF _ cols_inv_start[OF rect1]] by blast
  then show ?thesis using b C1 by (simp add: estimate_def)
qed

section \<open>The unimodality primitive: claims\<close>







section \<open>Construction: claims\<close>




text \<open>
  Claim C2, the behaviour of the code at a row with a zero. The row \<open>[0.75, 0.5, 0]\<close>
  has its first near-zero value in the last column. The claim (and the comment of
  line 97, "set everything at fainter mags to zero") leaves the two brighter columns
  at their suffix maxima 0.75 and 0.5; line 99 assigns the whole row, and the row
  comes out as zeros.
\<close>

theorem force_mag_monotonicity_zeroes_whole_row:
  "vals (force_mag_monotonicity_df \<lparr>index = [3], columns = [- 1, 0, 1], vals = [[3 / 4, 1 / 2, 0]]\<rparr>)
     = [[0, 0, 0]]"
  by code_simp

text \<open>
  Claim C7, as amended. When no candidate directory holds the file of the band, the
  construction fails with a \<^verbatim>\<open>ValueError\<close> whose message is the text of lines
  47-50, which tells the caller to add a data directory; no table is substituted.
\<close>

theorem init_table_not_found:
  assumes "\<forall>directory\<in>set directories. fs (table_path directory band) = None"
  shows "init directories fs rgi band m5_det h = Inl (Exn ''ValueError'' (not_found_message band))"
  using find_table_None[OF assms] by (simp add: init_def)

theorem init_table_not_found_witness:
  "init [''data''] example_fs linear_interpolator ''g'' 26 [] =
     Inl (Exn ''ValueError'' (not_found_message ''g''))"
proof -
  have "\<forall>directory\<in>set [''data'']. example_fs (table_path directory ''g'') = None"
    by (simp add: example_fs_def table_path_def)
  then show ?thesis by (rule init_table_not_found)
qed

text \<open>
  Claim C7 as stated fails in the class of the exception: it is
  \<^verbatim>\<open>ValueError\<close>, not \<^verbatim>\<open>TableNotFoundError\<close>.
\<close>

theorem init_error_class_counterexample:
  "exn_class (projl (init [''data''] example_fs linear_interpolator ''g'' 26 [])) = ''ValueError'' \<and>
   exn_class (projl (init [''data''] example_fs linear_interpolator ''g'' 26 [])) \<noteq> ''TableNotFoundError''"
  by (simp add: init_def example_fs_def table_path_def)

text \<open>
  Claim C9. For every constructed estimator, assigning to \<^verbatim>\<open>band\<close> or to
  \<^verbatim>\<open>m5_det\<close> fails with \<^verbatim>\<open>AttributeError\<close>, whatever the value, and the two
  properties return the band and the depth given to the constructor.
\<close>

theorem band_and_depth_read_only:
  assumes "init directories fs rgi band m5_det h = Inr (self, h')"
  shows "(\<exists>msg. setattr self ''band'' v = Inl (Exn ''AttributeError'' msg)) \<and>
         (\<exists>msg. setattr self ''m5_det'' v = Inl (Exn ''AttributeError'' msg)) \<and>
         getattr self ''band'' = Inr (Str band) \<and>
         getattr self ''m5_det'' = Inr (Float m5_det)"
  using init_Inr[OF assms]
  by (auto simp: setattr_def getattr_def Completeness_properties_def instance_attr_def)

theorem band_and_depth_read_only_witness:
  "exn_class (projl (setattr example_self ''band'' (Str ''fake''))) = ''AttributeError'' \<and>
   exn_class (projl (setattr example_self ''m5_det'' (Float (- 99)))) = ''AttributeError'' \<and>
   getattr example_self ''band'' = Inr (Str ''u'') \<and>
   getattr example_self ''m5_det'' = Inr (Float 26)"
  using band_and_depth_read_only[OF example_init, of "Str ''fake''"]
    band_and_depth_read_only[OF example_init, of "Float (- 99)"]
  by auto

text \<open>
  Claim C10. After a construction the attributes \<^verbatim>\<open>table0\<close> and \<^verbatim>\<open>table\<close>
  hold the same reference, the only table the construction added to the store is the
  one that reference points to, which holds the table after both enforcement passes,
  and the interpolator is built from that table: the values as loaded are kept
  nowhere.
\<close>

theorem table0_is_table:
  assumes "init directories fs rgi band m5_det h = Inr (self, h')"
  shows "\<exists>df T f. find_table directories fs band = Some (Inr df) \<and>
           force_z_unimodality_df (force_mag_monotonicity_df df) = Inr T \<and>
           self ''table0'' = Some (DataFrame (length h)) \<and>
           self ''table'' = Some (DataFrame (length h)) \<and>
           h' = h @ [T] \<and>
           rgi (index T) (columns T) (vals T) = Inr f \<and>
           self ''_interpolator'' = Some (Interpolator f)"
  using init_Inr[OF assms] by auto

theorem table0_is_table_witness:
  "find_table [''data''] example_fs ''u'' = Some (Inr example_raw) \<and>
   example_self ''table0'' = Some (DataFrame 0) \<and>
   example_self ''table'' = Some (DataFrame 0) \<and>
   [example_table] ! 0 \<noteq> example_raw"
proof -
  obtain df T f where "find_table [''data''] example_fs ''u'' = Some (Inr df)"
    "example_self ''table0'' = Some (DataFrame (length ([] :: heap)))"
    "example_self ''table'' = Some (DataFrame (length ([] :: heap)))"
    using table0_is_table[OF example_init] by blast
  moreover have "find_table [''data''] example_fs ''u'' = Some (Inr example_raw)"
    by (simp add: example_fs_def table_path_def)
  moreover have "example_table \<noteq> example_raw"
    by (simp add: example_table_def example_raw_def)
  ultimately show ?thesis by simp
qed

section \<open>The query: claims\<close>




text \<open>
  Claim C6. For every constructed estimator whose table has a column and every two
  magnitude arguments of the same shape whose offsets from the depth are all at most the
  minimum magnitude offset of the table, the queries at the two arguments over the same
  redshifts return the same result.
\<close>

theorem bright_queries_clamped:
  assumes "init directories fs rgi band m5_det h = Inr (self, h')"
    and "stored_table (init directories fs rgi band m5_det h) = Some T"
    and "columns T \<noteq> []"
    and "wf_ndarray m1" and "wf_ndarray m2" and "nd_shape m1 = nd_shape m2"
    and "\<forall>x\<in>nd_elems m1. x - m5_det \<le> Min (set (columns T))"
    and "\<forall>x\<in>nd_elems m2. x - m5_det \<le> Min (set (columns T))"
  shows "call self h' m1 z = call self h' m2 z"
proof -
  obtain f where c: "\<And>m. call self h' m z = estimate m5_det (columns T) f m z"
    using call_constructed[OF assms(1,2)] by blast
  have "nd_map (\<lambda>x. max x (amin (columns T))) (nd_map (\<lambda>x. x - m5_det) m1) =
        nd_map (\<lambda>x. max x (amin (columns T))) (nd_map (\<lambda>x. x - m5_det) m2)"
    using clip_bright[OF assms(3,7)] clip_bright[OF assms(3,8)]
      nd_map_const_shape[OF assms(4,5,6)] by simp
  then show ?thesis by (simp add: c estimate_def)
qed

theorem bright_queries_clamped_witness:
  "call example_self [example_table] (Scalar (- 100)) (Array1 [- 1, 5 / 2, 5]) =
   call example_self [example_table] (Scalar (- 90)) (Array1 [- 1, 5 / 2, 5])"
proof -
  have "columns example_table \<noteq> []"
       "\<forall>x\<in>nd_elems (Scalar (- 100)). x - 26 \<le> Min (set (columns example_table))"
       "\<forall>x\<in>nd_elems (Scalar (- 90)). x - 26 \<le> Min (set (columns example_table))"
    by (simp_all add: example_table_def)
  then show ?thesis
    using bright_queries_clamped[OF example_init example_stored, of "Scalar (- 100)" "Scalar (- 90)"]
    by simp
qed

text \<open>
  Claim C8, as amended. For every constructed estimator whose table has a column, a
  query whose magnitude and redshift shapes cannot be broadcast against each other
  fails with a \<^verbatim>\<open>ValueError\<close>; shapes that can be broadcast, equal or not, are
  broadcast, and the query returns a result when no axis of an argument is empty.
\<close>

theorem call_broadcasts:
  assumes "init directories fs rgi band m5_det h = Inr (self, h')"
    and "stored_table (init directories fs rgi band m5_det h) = Some T"
    and "columns T \<noteq> []"
  shows "(\<not> broadcastable z m \<longrightarrow> (\<exists>msg. call self h' m z = Inl (Exn ''ValueError'' msg))) \<and>
         (broadcastable z m \<and>
          0 < fst (shape2 m) \<and> 0 < snd (shape2 m) \<and> 0 < fst (shape2 z) \<and> 0 < snd (shape2 z)
            \<longrightarrow> (\<exists>r. call self h' m z = Inr r))"
proof -
  obtain f where c: "call self h' m z = estimate m5_det (columns T) f m z"
    using call_constructed[OF assms(1,2)] by blast
  show ?thesis
    using estimate_not_broadcastable[of z m m5_det "columns T" f]
      estimate_broadcastable[of z m m5_det "columns T" f] c
    by (simp add: broadcast_error_def)
qed

theorem call_broadcasts_witness:
  "call example_self [example_table] (Array1 [25, 26]) (Array1 [2, 5 / 2, 3]) = Inl broadcast_error \<and>
   exn_class broadcast_error = ''ValueError'' \<and>
   call example_self [example_table] (Array1 [25]) (Array1 [2, 5 / 2, 3]) =
     Inr (Array1 [1 / 2, 5 / 8, 3 / 4])"
proof -
  let ?z = "Array1 [2, 5 / 2, 3]"
  have "columns example_table \<noteq> []" by (simp add: example_table_def)
  note t = call_broadcasts[OF example_init example_stored this]
  have "\<not> broadcastable ?z (Array1 [25, 26])"
    by (simp add: broadcastable_def shape2_def broadcast_dim_def)
  then obtain msg where
    "call example_self [example_table] (Array1 [25, 26]) ?z = Inl (Exn ''ValueError'' msg)"
    using t[of ?z "Array1 [25, 26]"] by blast
  moreover have "call example_self [example_table] (Array1 [25, 26]) ?z = Inl broadcast_error"
    by code_simp
  moreover have "broadcastable ?z (Array1 [25]) \<and>
      0 < fst (shape2 (Array1 [25])) \<and> 0 < snd (shape2 (Array1 [25])) \<and>
      0 < fst (shape2 ?z) \<and> 0 < snd (shape2 ?z)"
    by (simp add: broadcastable_def shape2_def broadcast_dim_def)
  then obtain r where "call example_self [example_table] (Array1 [25]) ?z = Inr r"
    using t[of ?z "Array1 [25]"] by blast
  moreover have "call example_self [example_table] (Array1 [25]) ?z =
      Inr (Array1 [1 / 2, 5 / 8, 3 / 4])"
    by code_simp
  ultimately show ?thesis by (simp add: broadcast_error_def)
qed

text \<open>
  Claim C8 as stated fails: a magnitude array of shape \<open>(1,)\<close> and a redshift array of
  shape \<open>(3,)\<close> have different shapes, and the query broadcasts them and returns three
  values.
\<close>

theorem call_mismatched_shapes_counterexample:
  "nd_shape (Array1 [25]) \<noteq> nd_shape (Array1 [2, 5 / 2, 3]) \<and>
   call example_self [example_table] (Array1 [25]) (Array1 [2, 5 / 2, 3]) =
     Inr (Array1 [1 / 2, 5 / 8, 3 / 4])"
proof -
  have "call example_self [example_table] (Array1 [25]) (Array1 [2, 5 / 2, 3]) =
      Inr (Array1 [1 / 2, 5 / 8, 3 / 4])"
    by code_simp
  then show ?thesis by simp
qed

end
